theory Spec2Isabelle
  imports Main
begin

section \<open>The type model: \<^verbatim>\<open>type_checker/types.py\<close>\<close>

text \<open>
  Python objects have identity, and \<^verbatim>\<open>other == self\<close> on a class without
  \<^verbatim>\<open>__eq__\<close> compares identities. Type objects and list objects therefore live
  in a store and are known by their address. A type object holds the address of the list
  object bound to its \<^verbatim>\<open>direct_supertypes\<close> field; a constructor and a method hold
  the address of their \<^verbatim>\<open>argument_types\<close> list. A list object holds the addresses of
  type objects.
\<close>

type_synonym ref = nat

datatype jconstructor = JavaConstructor ref

datatype jmethod = JavaMethod string ref "ref option"

datatype jtype =
    JavaType string ref
  | JavaClassOrInterface string ref jconstructor "string \<rightharpoonup> jmethod"

record pystate =
  lists :: "ref list list"
  types :: "jtype list"

fun argument_types :: "jmethod \<Rightarrow> ref" where
  "argument_types (JavaMethod n l r) = l"

fun jmethod_name :: "jmethod \<Rightarrow> string" where
  "jmethod_name (JavaMethod n l r) = n"

fun constructor_argument_types :: "jconstructor \<Rightarrow> ref" where
  "constructor_argument_types (JavaConstructor l) = l"

fun name :: "jtype \<Rightarrow> string" where
  "name (JavaType n l) = n"
| "name (JavaClassOrInterface n l c ms) = n"

fun direct_supertypes :: "jtype \<Rightarrow> ref" where
  "direct_supertypes (JavaType n l) = l"
| "direct_supertypes (JavaClassOrInterface n l c ms) = l"

text \<open>
  A reference is followed only where it points to an allocated object; Python cannot hold
  any other reference.
\<close>

definition lookup_type :: "pystate \<Rightarrow> ref \<Rightarrow> jtype option" where
  "lookup_type s t = (if t < length (types s) then Some (types s ! t) else None)"

definition lookup_list :: "pystate \<Rightarrow> ref \<Rightarrow> ref list option" where
  "lookup_list s l = (if l < length (lists s) then Some (lists s ! l) else None)"

text \<open>
  The elements of \<^verbatim>\<open>self.direct_supertypes\<close>, read through both stores.
\<close>

definition supertypes_of :: "pystate \<Rightarrow> ref \<Rightarrow> ref list option" where
  "supertypes_of s t =
     (case lookup_type s t of
        None \<Rightarrow> None
      | Some ty \<Rightarrow> lookup_list s (direct_supertypes ty))"

subsection \<open>Module load and the constructors\<close>

text \<open>
  A default argument is evaluated once, when the \<^verbatim>\<open>def\<close> is executed. Loading the
  module therefore allocates, in source order, the list of
  \<^verbatim>\<open>JavaConstructor.__init__\<close> (address 0), the list of \<^verbatim>\<open>JavaType.__init__\<close>
  (address 1), the supertype list of \<^verbatim>\<open>JavaClassOrInterface.__init__\<close> (address 2),
  the list literal inside its default \<^verbatim>\<open>JavaConstructor([])\<close> (address 3) and the
  list of \<^verbatim>\<open>JavaMethod.__init__\<close> (address 4). The default \<^verbatim>\<open>methods = []\<close> is
  only iterated by the dictionary comprehension and never stored, so the
  \<^verbatim>\<open>methods\<close> argument is a plain list of values here.

  An optional argument is \<open>None\<close> when the call omits it and \<open>Some l\<close> when the call
  passes the list object at address \<open>l\<close>. \<^verbatim>\<open>self.direct_supertypes = direct_supertypes\<close>
  stores the reference it was given: no copy is made.
\<close>

definition module_state :: pystate where
  "module_state = \<lparr>lists = [[], [], [], [], []], types = []\<rparr>"

definition new_list :: "ref list \<Rightarrow> pystate \<Rightarrow> ref \<times> pystate" where
  "new_list xs s = (length (lists s), s\<lparr>lists := lists s @ [xs]\<rparr>)"

definition JavaConstructor_init :: "ref option \<Rightarrow> jconstructor" where
  "JavaConstructor_init args =
     JavaConstructor (case args of None \<Rightarrow> 0 | Some l \<Rightarrow> l)"

definition JavaMethod_init :: "string \<Rightarrow> ref option \<Rightarrow> ref option \<Rightarrow> jmethod" where
  "JavaMethod_init n args ret =
     JavaMethod n (case args of None \<Rightarrow> 4 | Some l \<Rightarrow> l) ret"

definition JavaType_init :: "string \<Rightarrow> ref option \<Rightarrow> pystate \<Rightarrow> ref \<times> pystate" where
  "JavaType_init n supers s =
     (length (types s),
      s\<lparr>types := types s @ [JavaType n (case supers of None \<Rightarrow> 1 | Some l \<Rightarrow> l)]\<rparr>)"

text \<open>
  \<^verbatim>\<open>{ method.name: method for method in methods }\<close>: a later method of the same name
  replaces an earlier one.
\<close>

definition methods_dict :: "jmethod list \<Rightarrow> (string \<rightharpoonup> jmethod)" where
  "methods_dict ms = fold (\<lambda>m d. d(jmethod_name m \<mapsto> m)) ms Map.empty"

definition JavaClassOrInterface_init ::
  "string \<Rightarrow> ref option \<Rightarrow> jconstructor option \<Rightarrow> jmethod list \<Rightarrow> pystate \<Rightarrow> ref \<times> pystate" where
  "JavaClassOrInterface_init n supers ctor ms s =
     (length (types s),
      s\<lparr>types := types s @
         [JavaClassOrInterface n
            (case supers of None \<Rightarrow> 2 | Some l \<Rightarrow> l)
            (case ctor of None \<Rightarrow> JavaConstructor 3 | Some c \<Rightarrow> c)
            (methods_dict ms)]\<rparr>)"

text \<open>
  \<^verbatim>\<open>xs.append(x)\<close> on the list object at address \<open>l\<close>.
\<close>

definition list_append :: "ref \<Rightarrow> ref \<Rightarrow> pystate \<Rightarrow> pystate" where
  "list_append l x s =
     (if l < length (lists s) then s\<lparr>lists := (lists s)[l := lists s ! l @ [x]]\<rparr> else s)"

subsection \<open>The subtype relation\<close>

text \<open>
  \<^verbatim>\<open>any(t.is_subtype_of(other) for t in self.direct_supertypes)\<close> consumes the
  generator from the left and stops at the first true element. A call that does not return
  makes the whole expression not return.
\<close>

fun any_opt :: "('a \<Rightarrow> bool option) \<Rightarrow> 'a list \<Rightarrow> bool option" where
  "any_opt f [] = Some False"
| "any_opt f (x # xs) =
     (case f x of
        None \<Rightarrow> None
      | Some True \<Rightarrow> Some True
      | Some False \<Rightarrow> any_opt f xs)"

text \<open>
  The recursion follows the supertype lists, which a program may have made cyclic, so the
  function takes the number of nested calls it may still make; \<open>None\<close> means that the
  call did not return within that depth. A call that returns within no depth returns no
  value in Python either: the interpreter ends it with \<^verbatim>\<open>RecursionError\<close>.
\<close>

fun is_subtype_of :: "nat \<Rightarrow> pystate \<Rightarrow> ref \<Rightarrow> ref \<Rightarrow> bool option" where
  "is_subtype_of 0 s self other = None"
| "is_subtype_of (Suc n) s self other =
     (if other = self then Some True
      else case supertypes_of s self of
             None \<Rightarrow> None
           | Some sups \<Rightarrow> any_opt (\<lambda>t. is_subtype_of n s t other) sups)"

definition is_supertype_of :: "nat \<Rightarrow> pystate \<Rightarrow> ref \<Rightarrow> ref \<Rightarrow> bool option" where
  "is_supertype_of n s self other = is_subtype_of n s other self"

text \<open>
  The graph of direct supertypes: \<open>(u, t)\<close> is an edge when \<open>u\<close> is an element of the
  supertype list of \<open>t\<close>. A store is closed when every reference in it is allocated, and
  allocation ordered when every element of a supertype list is older than the type that
  holds the list, as it is in a program that never mutates a list after passing it to a
  constructor.
\<close>

definition supertype_rel :: "pystate \<Rightarrow> (ref \<times> ref) set" where
  "supertype_rel s = {(u, t). \<exists>sups. supertypes_of s t = Some sups \<and> u \<in> set sups}"

definition heap_closed :: "pystate \<Rightarrow> bool" where
  "heap_closed s =
     (list_all (\<lambda>ty. direct_supertypes ty < length (lists s)) (types s)
      \<and> list_all (list_all (\<lambda>u. u < length (types s))) (lists s))"

definition allocation_ordered :: "pystate \<Rightarrow> bool" where
  "allocation_ordered s =
     list_all (\<lambda>t. case supertypes_of s t of
                       None \<Rightarrow> True
                     | Some sups \<Rightarrow> list_all (\<lambda>u. u < t) sups)
       [0..<length (types s)]"

subsection \<open>Method resolution\<close>









subsection \<open>Sample stores\<close>

text \<open>
  Two type objects built by \<^verbatim>\<open>JavaType("T")\<close>, one after the other.
\<close>

definition twins :: pystate where
  "twins = snd (JavaType_init ''T'' None (snd (JavaType_init ''T'' None module_state)))"

text \<open>
  \<^verbatim>\<open>
  object = JavaClassOrInterface("Object")
  drawable = JavaClassOrInterface("Drawable", [object],
                                  methods=[JavaMethod("draw", return_type=object)])
  shape = JavaClassOrInterface("Shape", [object], methods=[JavaMethod("draw")])
  square = JavaClassOrInterface("Square", [drawable, shape])
  int = JavaType("int")
  \<close>
\<close>

definition examples :: pystate where
  "examples =
     (let (object, s) = JavaClassOrInterface_init ''Object'' None None [] module_state;
          (l, s) = new_list [object] s;
          (drawable, s) = JavaClassOrInterface_init ''Drawable'' (Some l) None
                            [JavaMethod_init ''draw'' None (Some object)] s;
          (l, s) = new_list [object] s;
          (shape, s) = JavaClassOrInterface_init ''Shape'' (Some l) None
                            [JavaMethod_init ''draw'' None None] s;
          (l, s) = new_list [drawable, shape] s;
          (square, s) = JavaClassOrInterface_init ''Square'' (Some l) None [] s;
          (int, s) = JavaType_init ''int'' None s
      in s)"

text \<open>
  \<^verbatim>\<open>
  a = JavaType("A")
  b = JavaType("B")
  a.direct_supertypes.append(a)
  \<close>
\<close>

definition self_loop :: pystate where
  "self_loop =
     (let (a, s) = JavaType_init ''A'' None module_state;
          (b, s) = JavaType_init ''B'' None s
      in list_append (direct_supertypes (types s ! a)) a s)"

text \<open>
  \<^verbatim>\<open>
  a = JavaType("A")
  b = JavaType("B")
  c = JavaType("C")
  \<close>
\<close>

definition shared_default :: pystate where
  "shared_default =
     (let (a, s) = JavaType_init ''A'' None module_state;
          (b, s) = JavaType_init ''B'' None s;
          (c, s) = JavaType_init ''C'' None s
      in s)"


section \<open>The expression checker: \<^verbatim>\<open>java_type_checker/expressions.py\<close>\<close>

text \<open>
  An exception is a value. \<^verbatim>\<open>JavaTypeError\<close> and \<^verbatim>\<open>NoSuchJavaMethod\<close> are
  imported from \<^verbatim>\<open>java_type_checker/types.py\<close>, the other three type errors are declared
  in \<^verbatim>\<open>expressions.py\<close>, and \<^verbatim>\<open>NotImplementedError\<close> is raised by the two
  methods of the base class \<^verbatim>\<open>JavaExpression\<close>.
\<close>

datatype error =
    JavaTypeError string
  | NoSuchJavaMethod string
  | JavaTypeMismatchError string
  | JavaArgumentCountError string
  | JavaIllegalInstantiationError string
  | NotImplementedError string

text \<open>
  \<^verbatim>\<open>java_type_checker/types.py\<close> is not among the sources. The checker reads from a
  method its \<^verbatim>\<open>parameter_types\<close> and its \<^verbatim>\<open>return_type\<close>, and from a type its
  \<^verbatim>\<open>name\<close>, its \<^verbatim>\<open>is_object_type\<close> flag, \<^verbatim>\<open>is_subtype_of\<close> and
  \<^verbatim>\<open>method_named\<close>, and it reads \<^verbatim>\<open>JavaBuiltInTypes.NULL\<close>. These are the
  parameters of the model: any types \<open>'ty\<close> with any such operations.
\<close>

record 'ty java_method =
  parameter_types :: "'ty list"
  return_type :: 'ty

record 'ty java_types =
  jt_name :: "'ty \<Rightarrow> string"
  jt_is_object_type :: "'ty \<Rightarrow> bool"
  jt_is_subtype_of :: "'ty \<Rightarrow> 'ty \<Rightarrow> bool"
  jt_method_named :: "'ty \<Rightarrow> string \<Rightarrow> error + 'ty java_method"
  jt_NULL :: 'ty

text \<open>
  The nodes. \<^verbatim>\<open>JavaNullLiteral\<close> fixes its value to \<^verbatim>\<open>"null"\<close> and its type
  to \<^verbatim>\<open>JavaBuiltInTypes.NULL\<close>.
\<close>

datatype 'ty expr =
    JavaVariable string 'ty
  | JavaLiteral string 'ty
  | JavaNullLiteral
  | JavaAssignment "'ty expr" "'ty expr"
  | JavaMethodCall "'ty expr" string "'ty expr list"
  | JavaConstructorCall 'ty "'ty expr list"

text \<open>
  \<^verbatim>\<open>sep.join(items)\<close> and \<^verbatim>\<open>str(n)\<close> of a count.
\<close>

fun join :: "string \<Rightarrow> string list \<Rightarrow> string" where
  "join sep [] = []"
| "join sep [x] = x"
| "join sep (x # y # ys) = x @ sep @ join sep (y # ys)"

fun str :: "nat \<Rightarrow> string" where
  "str n = (if n < 10 then [''0123456789'' ! n]
            else str (n div 10) @ [''0123456789'' ! (n mod 10)])"

declare str.simps [simp del]

text \<open>
  \<^verbatim>\<open>JavaConstructorCall\<close> declares \<^verbatim>\<open>__init__\<close> only, so both operations are
  the ones it inherits from \<^verbatim>\<open>JavaExpression\<close>.
\<close>

fun static_type :: "'ty java_types \<Rightarrow> 'ty expr \<Rightarrow> error + 'ty" where
  "static_type T (JavaVariable n declared_type) = Inr declared_type"
| "static_type T (JavaLiteral v t) = Inr t"
| "static_type T JavaNullLiteral = Inr (jt_NULL T)"
| "static_type T (JavaAssignment lhs rhs) = static_type T lhs"
| "static_type T (JavaMethodCall receiver method_name args) =
     (case static_type T receiver of
        Inl e \<Rightarrow> Inl e
      | Inr receiver_type \<Rightarrow>
          if \<not> jt_is_object_type T receiver_type then
            Inl (JavaTypeError (''Cannot call method '' @ method_name @ '' on primitive type ''
                                @ jt_name T receiver_type))
          else
            (case jt_method_named T receiver_type method_name of
               Inl (NoSuchJavaMethod msg) \<Rightarrow> Inl (JavaTypeError msg)
             | Inl e \<Rightarrow> Inl e
             | Inr method \<Rightarrow> Inr (return_type method)))"
| "static_type T (JavaConstructorCall instantiated_type args) =
     Inl (NotImplementedError ''JavaConstructorCall must override static_type()'')"

text \<open>
  \<^verbatim>\<open>[arg.static_type() for arg in self.args]\<close>: the first exception ends it.
\<close>

fun static_types :: "'ty java_types \<Rightarrow> 'ty expr list \<Rightarrow> error + 'ty list" where
  "static_types T [] = Inr []"
| "static_types T (e # es) =
     (case static_type T e of
        Inl x \<Rightarrow> Inl x
      | Inr t \<Rightarrow> (case static_types T es of Inl x \<Rightarrow> Inl x | Inr ts \<Rightarrow> Inr (t # ts)))"

text \<open>
  \<^verbatim>\<open>check_args\<close> is the loop over \<^verbatim>\<open>zip(self.args, method.parameter_types)\<close>;
  it carries the receiver type's name, the method name, all parameter types and all
  arguments for the message of the mismatch error.
\<close>

fun check_types :: "'ty java_types \<Rightarrow> 'ty expr \<Rightarrow> error + unit"
  and check_args ::
    "'ty java_types \<Rightarrow> string \<Rightarrow> string \<Rightarrow> 'ty list \<Rightarrow> 'ty expr list \<Rightarrow> 'ty expr list \<Rightarrow> 'ty list
     \<Rightarrow> error + unit" where
  "check_types T (JavaVariable n declared_type) = Inr ()"
| "check_types T (JavaLiteral v t) = Inr ()"
| "check_types T JavaNullLiteral = Inr ()"
| "check_types T (JavaAssignment lhs rhs) =
     (case check_types T lhs of
        Inl e \<Rightarrow> Inl e
      | Inr u \<Rightarrow>
     (case check_types T rhs of
        Inl e \<Rightarrow> Inl e
      | Inr u \<Rightarrow>
     (case static_type T lhs of
        Inl e \<Rightarrow> Inl e
      | Inr lhs_type \<Rightarrow>
     (case static_type T rhs of
        Inl e \<Rightarrow> Inl e
      | Inr rhs_type \<Rightarrow>
          if \<not> jt_is_subtype_of T rhs_type lhs_type then
            Inl (JavaTypeMismatchError
              (case lhs of
                 JavaVariable variable_name declared_type \<Rightarrow>
                   ''Cannot assign '' @ jt_name T rhs_type @ '' to variable '' @ variable_name
                   @ '' of type '' @ jt_name T lhs_type
               | _ \<Rightarrow> ''Cannot assign '' @ jt_name T rhs_type @ '' to '' @ jt_name T lhs_type))
          else Inr ()))))"
| "check_types T (JavaMethodCall receiver method_name args) =
     (case check_types T receiver of
        Inl e \<Rightarrow> Inl e
      | Inr u \<Rightarrow>
     (case static_type T receiver of
        Inl e \<Rightarrow> Inl e
      | Inr receiver_type \<Rightarrow>
          if \<not> jt_is_object_type T receiver_type then
            Inl (NoSuchJavaMethod (''Type '' @ jt_name T receiver_type @ '' does not have methods''))
          else
            (case jt_method_named T receiver_type method_name of
               Inl (NoSuchJavaMethod msg) \<Rightarrow> Inl (NoSuchJavaMethod msg)
             | Inl e \<Rightarrow> Inl e
             | Inr method \<Rightarrow>
                 if length (parameter_types method) \<noteq> length args then
                   Inl (JavaArgumentCountError
                     (''Wrong number of arguments for '' @ jt_name T receiver_type @ ''.''
                      @ method_name @ ''(): expected '' @ str (length (parameter_types method))
                      @ '', got '' @ str (length args)))
                 else
                   check_args T (jt_name T receiver_type) method_name (parameter_types method)
                     args args (parameter_types method))))"
| "check_types T (JavaConstructorCall instantiated_type args) =
     Inl (NotImplementedError ''JavaConstructorCall must override check_types()'')"
| "check_args T receiver_name method_name params all_args [] ps = Inr ()"
| "check_args T receiver_name method_name params all_args (arg_expr # rest) [] = Inr ()"
| "check_args T receiver_name method_name params all_args (arg_expr # rest) (param_type # ps) =
     (case check_types T arg_expr of
        Inl e \<Rightarrow> Inl e
      | Inr u \<Rightarrow>
     (case static_type T arg_expr of
        Inl e \<Rightarrow> Inl e
      | Inr arg_type \<Rightarrow>
          if \<not> jt_is_subtype_of T arg_type param_type then
            (case static_types T all_args of
               Inl e \<Rightarrow> Inl e
             | Inr actual \<Rightarrow>
                 Inl (JavaTypeMismatchError
                   (receiver_name @ ''.'' @ method_name @ ''() expects arguments of type (''
                    @ join '', '' (map (jt_name T) params) @ ''), but got (''
                    @ join '', '' (map (jt_name T) actual) @ '')'')))
          else check_args T receiver_name method_name params all_args rest ps))"

text \<open>
  A small instance of the parameters to run the checker on: \<open>int\<close> is the only type
  that is not an object type, \<open>Rectangle\<close> is a subtype of \<open>Graphics\<close>, both are
  subtypes of \<open>Object\<close>, and \<open>Graphics\<close> and \<open>Rectangle\<close> have one method,
  \<open>add(Graphics, int)\<close>, which returns \<open>Graphics\<close>; \<open>null\<close> is a subtype of every
  object type.
\<close>

datatype sample_type = Prim_int | Null_type | Object | Graphics | Rectangle

fun sample_name :: "sample_type \<Rightarrow> string" where
  "sample_name Prim_int = ''int''"
| "sample_name Null_type = ''null''"
| "sample_name Object = ''Object''"
| "sample_name Graphics = ''Graphics''"
| "sample_name Rectangle = ''Rectangle''"

fun sample_subtype :: "sample_type \<Rightarrow> sample_type \<Rightarrow> bool" where
  "sample_subtype Rectangle Graphics = True"
| "sample_subtype Rectangle Object = True"
| "sample_subtype Graphics Object = True"
| "sample_subtype Null_type Prim_int = False"
| "sample_subtype Null_type t = True"
| "sample_subtype t u = (t = u)"

fun sample_method_named :: "sample_type \<Rightarrow> string \<Rightarrow> error + sample_type java_method" where
  "sample_method_named t m =
     (if (t = Graphics \<or> t = Rectangle) \<and> m = ''add'' then
        Inr \<lparr>parameter_types = [Graphics, Prim_int], return_type = Graphics\<rparr>
      else Inl (NoSuchJavaMethod (sample_name t @ '' has no method named '' @ m)))"

definition fixture :: "sample_type java_types" where
  "fixture =
     \<lparr>jt_name = sample_name,
      jt_is_object_type = (\<lambda>t. t \<noteq> Prim_int),
      jt_is_subtype_of = sample_subtype,
      jt_method_named = sample_method_named,
      jt_NULL = Null_type\<rparr>"

text \<open>
  \<^verbatim>\<open>g = 5\<close>, for a variable \<open>g\<close> of type \<open>Graphics\<close>.
\<close>

definition bad_assignment :: "sample_type expr" where
  "bad_assignment = JavaAssignment (JavaVariable ''g'' Graphics) (JavaLiteral ''5'' Prim_int)"

section \<open>Properties of the subtype relation\<close>

lemma twins_eq:
  "twins = \<lparr>lists = [[], [], [], [], []], types = [JavaType ''T'' 1, JavaType ''T'' 1]\<rparr>"
  by (simp add: twins_def JavaType_init_def module_state_def)

lemma examples_eq:
  "examples =
     \<lparr>lists = [[], [], [], [], [], [0], [0], [1, 2]],
      types = [JavaClassOrInterface ''Object'' 2 (JavaConstructor 3) Map.empty,
               JavaClassOrInterface ''Drawable'' 5 (JavaConstructor 3)
                 [''draw'' \<mapsto> JavaMethod ''draw'' 4 (Some 0)],
               JavaClassOrInterface ''Shape'' 6 (JavaConstructor 3)
                 [''draw'' \<mapsto> JavaMethod ''draw'' 4 None],
               JavaClassOrInterface ''Square'' 7 (JavaConstructor 3) Map.empty,
               JavaType ''int'' 1]\<rparr>"
  by (simp add: examples_def module_state_def JavaClassOrInterface_init_def new_list_def
      JavaMethod_init_def JavaType_init_def methods_dict_def)

lemma self_loop_eq:
  "self_loop = \<lparr>lists = [[], [0], [], [], []], types = [JavaType ''A'' 1, JavaType ''B'' 1]\<rparr>"
  by (simp add: self_loop_def module_state_def JavaType_init_def list_append_def)

lemma shared_default_eq:
  "shared_default =
     \<lparr>lists = [[], [], [], [], []],
      types = [JavaType ''A'' 1, JavaType ''B'' 1, JavaType ''C'' 1]\<rparr>"
  by (simp add: shared_default_def module_state_def JavaType_init_def)


subsection \<open>The traversal of a supertype list\<close>

lemma any_opt_False_iff: "any_opt f xs = Some False \<longleftrightarrow> (\<forall>x\<in>set xs. f x = Some False)"
  by (induction xs) (auto split: option.splits bool.splits)

lemma any_opt_True_D:
  "any_opt f xs = Some True \<Longrightarrow>
     \<exists>pre x post. xs = pre @ x # post \<and> (\<forall>p\<in>set pre. f p = Some False) \<and> f x = Some True"
proof (induction xs)
  case Nil
  then show ?case by simp
next
  case (Cons a xs)
  show ?case
  proof (cases "f a = Some True")
    case True
    then have "a # xs = [] @ a # xs \<and> (\<forall>p\<in>set []. f p = Some False) \<and> f a = Some True"
      by simp
    then show ?thesis by blast
  next
    case False
    with Cons.prems have fa: "f a = Some False" and "any_opt f xs = Some True"
      by (auto split: option.splits bool.splits)
    with Cons.IH obtain pre x post where
      "xs = pre @ x # post" "\<forall>p\<in>set pre. f p = Some False" "f x = Some True"
      by blast
    with fa have "a # xs = (a # pre) @ x # post \<and> (\<forall>p\<in>set (a # pre). f p = Some False) \<and> f x = Some True"
      by simp
    then show ?thesis by blast
  qed
qed

lemma any_opt_total: "(\<forall>x\<in>set xs. f x \<noteq> None) \<Longrightarrow> any_opt f xs \<noteq> None"
  by (induction xs) (auto split: option.splits bool.splits)

lemma any_opt_mono:
  "any_opt f xs = Some b \<Longrightarrow> (\<And>x c. x \<in> set xs \<Longrightarrow> f x = Some c \<Longrightarrow> g x = Some c)
   \<Longrightarrow> any_opt g xs = Some b"
  by (induction xs) (auto split: option.splits bool.splits)

lemma any_opt_hit:
  "(\<forall>p\<in>set pre. g p \<noteq> None) \<Longrightarrow> g x = Some True \<Longrightarrow> any_opt g (pre @ x # post) = Some True"
  by (induction pre) (auto split: option.splits bool.splits)

text \<open>
  A call that returns within some depth returns the same value within any greater depth.
\<close>

lemma is_subtype_of_mono:
  "is_subtype_of n s t u = Some b \<Longrightarrow> n \<le> m \<Longrightarrow> is_subtype_of m s t u = Some b"
proof (induction n arbitrary: t m b)
  case 0
  then show ?case by simp
next
  case (Suc n)
  then obtain m' where m: "m = Suc m'" "n \<le> m'"
    by (cases m) auto
  show ?case
  proof (cases "u = t")
    case True
    then show ?thesis using Suc.prems m by simp
  next
    case False
    with Suc.prems obtain sups where
      sups: "supertypes_of s t = Some sups" "any_opt (\<lambda>x. is_subtype_of n s x u) sups = Some b"
      by (auto split: option.splits)
    have "any_opt (\<lambda>x. is_subtype_of m' s x u) sups = Some b"
      by (rule any_opt_mono [OF sups(2)]) (use Suc.IH m(2) in blast)
    with False sups(1) m(1) show ?thesis by simp
  qed
qed

lemma is_subtype_of_total_after_False:
  "is_subtype_of n s t b = Some False \<Longrightarrow> \<exists>r. is_subtype_of n s t a = Some r"
proof (induction n arbitrary: t)
  case 0
  then show ?case by simp
next
  case (Suc n)
  from Suc.prems have "b \<noteq> t"
    by (auto split: if_splits)
  with Suc.prems obtain sups where
    sups: "supertypes_of s t = Some sups" "any_opt (\<lambda>x. is_subtype_of n s x b) sups = Some False"
    by (auto split: option.splits)
  then have "\<forall>x\<in>set sups. is_subtype_of n s x b = Some False"
    by (simp add: any_opt_False_iff)
  with Suc.IH have "\<forall>x\<in>set sups. is_subtype_of n s x a \<noteq> None"
    by fastforce
  then have "any_opt (\<lambda>x. is_subtype_of n s x a) sups \<noteq> None"
    by (rule any_opt_total)
  with sups(1) show ?case
    by (cases "a = t") auto
qed

lemma is_subtype_of_trans_fuel:
  "is_subtype_of n s c b = Some True \<Longrightarrow> is_subtype_of m s b a = Some True
   \<Longrightarrow> is_subtype_of (n + m) s c a = Some True"
proof (induction n arbitrary: c)
  case 0
  then show ?case by simp
next
  case (Suc n)
  show ?case
  proof (cases "b = c")
    case True
    with Suc.prems(2) have "is_subtype_of m s c a = Some True"
      by simp
    then show ?thesis
      by (rule is_subtype_of_mono) simp
  next
    case False
    with Suc.prems(1) obtain sups where
      sups: "supertypes_of s c = Some sups" "any_opt (\<lambda>x. is_subtype_of n s x b) sups = Some True"
      by (auto split: option.splits)
    from any_opt_True_D [OF sups(2)] obtain pre x post where
      split: "sups = pre @ x # post" "\<forall>p\<in>set pre. is_subtype_of n s p b = Some False"
        "is_subtype_of n s x b = Some True"
      by blast
    have "\<forall>p\<in>set pre. is_subtype_of (n + m) s p a \<noteq> None"
    proof
      fix p assume "p \<in> set pre"
      with split(2) have "is_subtype_of n s p b = Some False" by blast
      then obtain r where "is_subtype_of n s p a = Some r"
        using is_subtype_of_total_after_False by blast
      then have "is_subtype_of (n + m) s p a = Some r"
        by (rule is_subtype_of_mono) simp
      then show "is_subtype_of (n + m) s p a \<noteq> None" by simp
    qed
    moreover have "is_subtype_of (n + m) s x a = Some True"
      using split(3) Suc.prems(2) by (rule Suc.IH)
    ultimately have "any_opt (\<lambda>t. is_subtype_of (n + m) s t a) (pre @ x # post) = Some True"
      by (rule any_opt_hit)
    with sups(1) split(1) show ?thesis
      by simp
  qed
qed

subsection \<open>The result and the graph\<close>

lemma supertype_relI:
  "supertypes_of s t = Some sups \<Longrightarrow> u \<in> set sups \<Longrightarrow> (u, t) \<in> supertype_rel s"
  by (auto simp: supertype_rel_def)

lemma is_subtype_of_True_reachable:
  "is_subtype_of n s t u = Some True \<Longrightarrow> (u, t) \<in> (supertype_rel s)\<^sup>*"
proof (induction n arbitrary: t)
  case 0
  then show ?case by simp
next
  case (Suc n)
  show ?case
  proof (cases "u = t")
    case True
    then show ?thesis by simp
  next
    case False
    with Suc.prems obtain sups where
      sups: "supertypes_of s t = Some sups" "any_opt (\<lambda>x. is_subtype_of n s x u) sups = Some True"
      by (auto split: option.splits)
    from any_opt_True_D [OF sups(2)] obtain pre x post where
      "sups = pre @ x # post" and x2: "is_subtype_of n s x u = Some True"
      by blast
    then have x: "x \<in> set sups" "is_subtype_of n s x u = Some True"
      by simp_all
    from x(2) have "(u, x) \<in> (supertype_rel s)\<^sup>*"
      by (rule Suc.IH)
    moreover from sups(1) x(1) have "(x, t) \<in> supertype_rel s"
      by (rule supertype_relI)
    ultimately show ?thesis
      by (rule rtrancl_into_rtrancl)
  qed
qed

lemma is_subtype_of_False_unreachable:
  "is_subtype_of n s t u = Some False \<Longrightarrow> (u, t) \<notin> (supertype_rel s)\<^sup>*"
proof (induction n arbitrary: t)
  case 0
  then show ?case by simp
next
  case (Suc n)
  from Suc.prems have ne: "u \<noteq> t"
    by (auto split: if_splits)
  with Suc.prems obtain sups where
    sups: "supertypes_of s t = Some sups" "any_opt (\<lambda>x. is_subtype_of n s x u) sups = Some False"
    by (auto split: option.splits)
  then have all: "\<forall>x\<in>set sups. is_subtype_of n s x u = Some False"
    by (simp add: any_opt_False_iff)
  show ?case
  proof
    assume "(u, t) \<in> (supertype_rel s)\<^sup>*"
    with ne obtain x where x: "(u, x) \<in> (supertype_rel s)\<^sup>*" "(x, t) \<in> supertype_rel s"
      by (auto elim: rtranclE)
    from x(2) sups(1) have "x \<in> set sups"
      by (auto simp: supertype_rel_def)
    with all have "is_subtype_of n s x u = Some False" by blast
    then have "(u, x) \<notin> (supertype_rel s)\<^sup>*"
      by (rule Suc.IH)
    with x(1) show False by contradiction
  qed
qed

lemma supertypes_of_SomeD:
  "supertypes_of s t = Some sups \<Longrightarrow> t < length (types s) \<and> sups \<in> set (lists s)"
  by (auto simp: supertypes_of_def lookup_type_def lookup_list_def split: option.splits if_splits)

lemma finite_supertype_rel: "finite (supertype_rel s)"
proof -
  have "supertype_rel s \<subseteq> (\<Union>(set ` set (lists s))) \<times> {..<length (types s)}"
    by (auto simp: supertype_rel_def dest: supertypes_of_SomeD)
  then show ?thesis
    by (rule finite_subset) simp
qed

lemma heap_closed_supertypes:
  assumes "heap_closed s" "t < length (types s)"
  shows "\<exists>sups. supertypes_of s t = Some sups \<and> (\<forall>x\<in>set sups. x < length (types s))"
proof -
  from assms have l: "direct_supertypes (types s ! t) < length (lists s)"
    by (simp add: heap_closed_def list_all_length)
  then have "lists s ! direct_supertypes (types s ! t) \<in> set (lists s)"
    by (rule nth_mem)
  with assms(1) have "\<forall>x\<in>set (lists s ! direct_supertypes (types s ! t)). x < length (types s)"
    by (simp add: heap_closed_def list_all_iff)
  with l assms(2) show ?thesis
    by (simp add: supertypes_of_def lookup_type_def lookup_list_def)
qed

subsection \<open>Termination\<close>

lemma uniform_depth:
  assumes "\<forall>x\<in>set xs. \<exists>n. \<forall>u. is_subtype_of n s x u \<noteq> None"
  shows "\<exists>n. \<forall>x\<in>set xs. \<forall>u. is_subtype_of n s x u \<noteq> None"
  using assms
proof (induction xs)
  case Nil
  then show ?case by simp
next
  case (Cons a xs)
  then obtain n where n: "\<forall>x\<in>set xs. \<forall>u. is_subtype_of n s x u \<noteq> None"
    by auto
  from Cons.prems obtain k where k: "\<forall>u. is_subtype_of k s a u \<noteq> None"
    by auto
  have "\<forall>x\<in>set (a # xs). \<forall>u. is_subtype_of (max n k) s x u \<noteq> None"
  proof (intro ballI allI)
    fix x u assume x: "x \<in> set (a # xs)"
    have "\<exists>j r. j \<le> max n k \<and> is_subtype_of j s x u = Some r"
    proof (cases "x = a")
      case True
      with k obtain r where "is_subtype_of k s x u = Some r" by fastforce
      moreover have "k \<le> max n k" by simp
      ultimately show ?thesis by blast
    next
      case False
      with x n obtain r where "is_subtype_of n s x u = Some r" by fastforce
      moreover have "n \<le> max n k" by simp
      ultimately show ?thesis by blast
    qed
    then obtain j r where "j \<le> max n k" "is_subtype_of j s x u = Some r"
      by blast
    then have "is_subtype_of (max n k) s x u = Some r"
      using is_subtype_of_mono by blast
    then show "is_subtype_of (max n k) s x u \<noteq> None" by simp
  qed
  then show ?case by blast
qed

lemma is_subtype_of_returns_wf:
  assumes closed: "heap_closed s" and wf: "wf (supertype_rel s)"
  shows "t < length (types s) \<Longrightarrow> \<exists>n. \<forall>u. is_subtype_of n s t u \<noteq> None"
  using wf
proof (induction t rule: wf_induct_rule)
  case (less t)
  from heap_closed_supertypes [OF closed less.prems] obtain sups where
    sups: "supertypes_of s t = Some sups" "\<forall>x\<in>set sups. x < length (types s)"
    by blast
  have "\<forall>x\<in>set sups. \<exists>n. \<forall>u. is_subtype_of n s x u \<noteq> None"
  proof
    fix x assume x: "x \<in> set sups"
    with sups(1) have "(x, t) \<in> supertype_rel s"
      by (auto intro: supertype_relI)
    moreover from x sups(2) have "x < length (types s)" by blast
    ultimately show "\<exists>n. \<forall>u. is_subtype_of n s x u \<noteq> None"
      by (rule less.IH)
  qed
  then obtain n where n: "\<forall>x\<in>set sups. \<forall>u. is_subtype_of n s x u \<noteq> None"
    using uniform_depth by blast
  have "\<forall>u. is_subtype_of (Suc n) s t u \<noteq> None"
  proof
    fix u
    from n have "any_opt (\<lambda>x. is_subtype_of n s x u) sups \<noteq> None"
      by (intro any_opt_total) blast
    with sups(1) show "is_subtype_of (Suc n) s t u \<noteq> None"
      by (cases "u = t") auto
  qed
  then show ?case by blast
qed

lemma is_subtype_of_returns:
  assumes "heap_closed s" "acyclic (supertype_rel s)" "t < length (types s)"
  shows "\<exists>n. \<forall>m\<ge>n. \<exists>b. is_subtype_of m s t u = Some b"
proof -
  from assms(2) have "wf (supertype_rel s)"
    using finite_supertype_rel by (intro finite_acyclic_wf)
  from is_subtype_of_returns_wf [OF assms(1) this assms(3)]
  obtain n where "\<forall>u. is_subtype_of n s t u \<noteq> None"
    by blast
  then obtain b where "is_subtype_of n s t u = Some b"
    by fastforce
  then have "\<forall>m\<ge>n. is_subtype_of m s t u = Some b"
    using is_subtype_of_mono by blast
  then show ?thesis by blast
qed

lemma self_loop_diverges: "is_subtype_of n self_loop 0 1 = None"
  by (induction n) (simp_all add: self_loop_eq supertypes_of_def lookup_type_def lookup_list_def)

lemma allocation_ordered_acyclic:
  assumes "allocation_ordered s"
  shows "acyclic (supertype_rel s)"
proof (rule acyclicI_order [where f = "\<lambda>x. length (types s) - x"])
  fix u t assume "(u, t) \<in> supertype_rel s"
  then obtain sups where sups: "supertypes_of s t = Some sups" "u \<in> set sups"
    by (auto simp: supertype_rel_def)
  then have t: "t < length (types s)"
    by (auto dest: supertypes_of_SomeD)
  with assms have "case supertypes_of s t of None \<Rightarrow> True | Some sups \<Rightarrow> list_all (\<lambda>u. u < t) sups"
    by (simp add: allocation_ordered_def list_all_iff)
  with sups have "u < t"
    by (simp add: list_all_iff)
  with t show "length (types s) - t < length (types s) - u"
    by simp
qed

lemma examples_closed: "heap_closed examples"
  by (simp add: examples_eq heap_closed_def)

lemma examples_ordered: "allocation_ordered examples"
  by (simp add: examples_eq allocation_ordered_def supertypes_of_def lookup_type_def
      lookup_list_def upt_rec)

lemma examples_acyclic: "acyclic (supertype_rel examples)"
  using examples_ordered by (rule allocation_ordered_acyclic)

lemma twins_rel: "supertype_rel twins = {}"
  by (auto simp: supertype_rel_def twins_eq supertypes_of_def lookup_type_def lookup_list_def
      less_Suc_eq split: if_splits)

subsection \<open>Reflexivity\<close>

text \<open>
  C6. For every type \<open>T\<close>, \<open>T.is_subtype_of(T)\<close> returns true, whatever the supertype
  graph looks like, because the identity test comes first. The test is on the identity of
  the object and not on its contents: the two objects of \<open>twins\<close> have the same name and
  the same supertype list, and neither is a subtype of the other.
\<close>

theorem is_subtype_of_reflexive:
  "is_subtype_of (Suc n) s t t = Some True
   \<and> lookup_type twins 0 = lookup_type twins 1
   \<and> is_subtype_of (Suc n) twins 0 1 = Some False
   \<and> is_subtype_of (Suc n) twins 1 0 = Some False"
  by (simp add: twins_eq lookup_type_def lookup_list_def supertypes_of_def)

subsection \<open>Transitivity\<close>

text \<open>
  C7. If \<open>a\<close> is a supertype of \<open>b\<close> and \<open>b\<close> is a supertype of \<open>c\<close>, then
  \<open>a\<close> is a supertype of \<open>c\<close>: when the two calls return true, the third call returns
  true at every depth from the sum of their depths on; equivalently, \<open>c.is_subtype_of(a)\<close>
  returns true. This holds in every supertype graph, so in every acyclic one.
\<close>

theorem is_supertype_of_transitive:
  assumes "is_supertype_of n s a b = Some True" and "is_supertype_of m s b c = Some True"
  shows "\<exists>k. \<forall>j\<ge>k. is_supertype_of j s a c = Some True
                 \<and> is_subtype_of j s c a = Some True"
proof -
  from assms have "is_subtype_of (m + n) s c a = Some True"
    unfolding is_supertype_of_def by (intro is_subtype_of_trans_fuel)
  then have "\<forall>j\<ge>m + n. is_subtype_of j s c a = Some True"
    using is_subtype_of_mono by blast
  then show ?thesis
    unfolding is_supertype_of_def by blast
qed

text \<open>
  \<open>Object\<close>, \<open>Drawable\<close> and \<open>Square\<close> of the sample store.
\<close>

theorem is_supertype_of_transitive_witness:
  "is_supertype_of 3 examples 0 1 = Some True
   \<and> is_supertype_of 3 examples 1 3 = Some True
   \<and> (\<exists>k. \<forall>j\<ge>k. is_supertype_of j examples 0 3 = Some True
                 \<and> is_subtype_of j examples 3 0 = Some True)
   \<and> is_supertype_of 3 examples 0 3 = Some True"
proof -
  have a: "is_supertype_of 3 examples 0 1 = Some True"
    by (simp add: is_supertype_of_def examples_eq supertypes_of_def lookup_type_def
        lookup_list_def numeral_3_eq_3)
  have b: "is_supertype_of 3 examples 1 3 = Some True"
    by (simp add: is_supertype_of_def examples_eq supertypes_of_def lookup_type_def
        lookup_list_def numeral_3_eq_3)
  have c: "is_supertype_of 3 examples 0 3 = Some True"
    by (simp add: is_supertype_of_def examples_eq supertypes_of_def lookup_type_def
        lookup_list_def numeral_3_eq_3)
  from is_supertype_of_transitive [OF a b] a b c show ?thesis
    by blast
qed

subsection \<open>Termination on acyclic graphs\<close>

text \<open>
  C8. In a closed store whose supertype graph is acyclic, \<open>self.is_subtype_of(other)\<close>
  returns for every allocated type \<open>self\<close> and every \<open>other\<close>: from some depth on the
  call has a value. Nothing checks the graph at run time: in the store \<open>self_loop\<close>,
  where \<open>A\<close> is its own direct supertype, \<open>A.is_subtype_of(B)\<close> returns at no depth.
\<close>

theorem is_subtype_of_terminates:
  assumes "heap_closed s" and "acyclic (supertype_rel s)" and "self < length (types s)"
  shows "(\<exists>n. \<forall>m\<ge>n. \<exists>b. is_subtype_of m s self other = Some b)
         \<and> (\<forall>n. is_subtype_of n self_loop 0 1 = None)"
  using is_subtype_of_returns [OF assms] self_loop_diverges by blast

text \<open>
  \<open>Square\<close> and \<open>int\<close> of the sample store.
\<close>

theorem is_subtype_of_terminates_witness:
  "heap_closed examples \<and> acyclic (supertype_rel examples) \<and> 3 < length (types examples)
   \<and> (\<exists>n. \<forall>m\<ge>n. \<exists>b. is_subtype_of m examples 3 4 = Some b)
   \<and> is_subtype_of 3 examples 3 4 = Some False"
proof -
  have len: "3 < length (types examples)"
    by (simp add: examples_eq)
  have "is_subtype_of 3 examples 3 4 = Some False"
    by (simp add: examples_eq supertypes_of_def lookup_type_def lookup_list_def numeral_3_eq_3)
  with is_subtype_of_terminates [OF examples_closed examples_acyclic len, of 4]
    examples_closed examples_acyclic len
  show ?thesis by blast
qed

subsection \<open>Identity, not name\<close>

text \<open>
  C10. For two distinct type objects \<open>a\<close> and \<open>b\<close> such that \<open>b\<close> is not reachable
  from \<open>a\<close> along direct-supertype edges, \<open>a.is_subtype_of(b)\<close> is never true, whatever
  the names of the two objects are, and it returns false when the store is closed, its
  graph acyclic and \<open>a\<close> allocated.
\<close>

theorem is_subtype_of_by_identity:
  assumes "a \<noteq> b" and "(b, a) \<notin> (supertype_rel s)\<^sup>*"
  shows "(\<forall>n. is_subtype_of n s a b \<noteq> Some True)
         \<and> (heap_closed s \<and> acyclic (supertype_rel s) \<and> a < length (types s)
              \<longrightarrow> (\<exists>n. \<forall>m\<ge>n. is_subtype_of m s a b = Some False))"
proof (intro conjI impI)
  show never: "\<forall>n. is_subtype_of n s a b \<noteq> Some True"
    using assms(2) is_subtype_of_True_reachable by blast
  assume "heap_closed s \<and> acyclic (supertype_rel s) \<and> a < length (types s)"
  then obtain n where "\<forall>m\<ge>n. \<exists>r. is_subtype_of m s a b = Some r"
    using is_subtype_of_returns by blast
  with never have "\<forall>m\<ge>n. is_subtype_of m s a b = Some False"
    by (metis (full_types))
  then show "\<exists>n. \<forall>m\<ge>n. is_subtype_of m s a b = Some False"
    by blast
qed

text \<open>
  The two objects of \<open>twins\<close> have the same name.
\<close>

theorem is_subtype_of_by_identity_witness:
  "(0::nat) \<noteq> 1 \<and> (1, 0) \<notin> (supertype_rel twins)\<^sup>*
   \<and> name (types twins ! 0) = name (types twins ! 1)
   \<and> heap_closed twins \<and> acyclic (supertype_rel twins) \<and> 0 < length (types twins)
   \<and> (\<forall>n. is_subtype_of n twins 0 1 \<noteq> Some True)
   \<and> (\<exists>n. \<forall>m\<ge>n. is_subtype_of m twins 0 1 = Some False)"
proof -
  have ne: "(0::nat) \<noteq> 1" by simp
  have unreachable: "(1, 0) \<notin> (supertype_rel twins)\<^sup>*"
    by (simp add: twins_rel)
  have wf: "heap_closed twins \<and> acyclic (supertype_rel twins) \<and> 0 < length (types twins)"
    by (simp add: twins_rel acyclic_def) (simp add: twins_eq heap_closed_def)
  have names: "name (types twins ! 0) = name (types twins ! 1)"
    by (simp add: twins_eq)
  from is_subtype_of_by_identity [OF ne unreachable] wf ne unreachable names show ?thesis
    by blast
qed

subsection \<open>Default sequences\<close>

text \<open>
  C9. The claim wants every instance built without an explicit sequence to own a list of its
  own. The constructors store the default list object itself: two types built one after the
  other without a supertype list are distinct objects holding the same list address, and so
  do two classes or interfaces, two methods hold the same \<open>argument_types\<close> address, and
  every constructor built without an argument holds the list at address 0. In the store
  of \<open>A\<close>, \<open>B\<close> and \<open>C\<close>, \<open>B.is_subtype_of(C)\<close> is false, and it is true after
  \<open>A.direct_supertypes.append(C)\<close>.
\<close>

theorem default_sequences_are_shared:
  "(let (a, s1) = JavaType_init n1 None s; (b, s2) = JavaType_init n2 None s1
    in a \<noteq> b \<and> direct_supertypes (types s2 ! a) = direct_supertypes (types s2 ! b))
   \<and> (let (a, s1) = JavaClassOrInterface_init n1 None None [] s;
          (b, s2) = JavaClassOrInterface_init n2 None None [] s1
      in a \<noteq> b \<and> direct_supertypes (types s2 ! a) = direct_supertypes (types s2 ! b))
   \<and> argument_types (JavaMethod_init n1 None r1) = argument_types (JavaMethod_init n2 None r2)
   \<and> constructor_argument_types (JavaConstructor_init None) = 0
   \<and> direct_supertypes (types shared_default ! 0) = direct_supertypes (types shared_default ! 1)
   \<and> is_subtype_of 2 shared_default 1 2 = Some False
   \<and> is_subtype_of 2
         (list_append (direct_supertypes (types shared_default ! 0)) 2 shared_default) 1 2
       = Some True"
  by (simp add: JavaType_init_def JavaClassOrInterface_init_def JavaMethod_init_def
      JavaConstructor_init_def shared_default_eq list_append_def supertypes_of_def
      lookup_type_def lookup_list_def numeral_2_eq_2 nth_append)

section \<open>Properties of method resolution\<close>






























section \<open>Properties of the expression checker\<close>

lemma check_types_static_type:
  "check_types T e = Inr () \<Longrightarrow> \<exists>t. static_type T e = Inr t"
  by (cases e) (auto split: sum.splits if_splits error.splits)

lemma check_args_child_error:
  assumes "\<forall>i<length pre. check_types T (pre ! i) = Inr ()
             \<and> (\<exists>t. static_type T (pre ! i) = Inr t \<and> jt_is_subtype_of T t (ps ! i))"
    and "length pre < length ps"
    and "check_types T a = Inl e"
  shows "check_args T rn mn params all_args (pre @ a # post) ps = Inl e"
  using assms
proof (induction pre arbitrary: ps)
  case Nil
  then obtain p ps' where "ps = p # ps'"
    by (cases ps) auto
  with Nil.prems(3) show ?case by simp
next
  case (Cons x pre)
  from Cons.prems(2) obtain p ps' where ps: "ps = p # ps'"
    by (cases ps) auto
  from Cons.prems(1) have "check_types T ((x # pre) ! 0) = Inr ()
      \<and> (\<exists>t. static_type T ((x # pre) ! 0) = Inr t \<and> jt_is_subtype_of T t (ps ! 0))"
    by blast
  with ps obtain t where x: "check_types T x = Inr ()" "static_type T x = Inr t"
    "jt_is_subtype_of T t p"
    by auto
  have "\<forall>i<length pre. check_types T (pre ! i) = Inr ()
             \<and> (\<exists>t. static_type T (pre ! i) = Inr t \<and> jt_is_subtype_of T t (ps' ! i))"
  proof (intro allI impI)
    fix i assume "i < length pre"
    then have "Suc i < length (x # pre)" by simp
    with Cons.prems(1) have "check_types T ((x # pre) ! Suc i) = Inr ()
      \<and> (\<exists>t. static_type T ((x # pre) ! Suc i) = Inr t \<and> jt_is_subtype_of T t (ps ! Suc i))"
      by blast
    with ps show "check_types T (pre ! i) = Inr ()
             \<and> (\<exists>t. static_type T (pre ! i) = Inr t \<and> jt_is_subtype_of T t (ps' ! i))"
      by simp
  qed
  moreover from Cons.prems(2) ps have "length pre < length ps'" by simp
  ultimately have "check_args T rn mn params all_args (pre @ a # post) ps' = Inl e"
    using Cons.prems(3) by (rule Cons.IH)
  with x ps show ?case by simp
qed

subsection \<open>Static types\<close>

text \<open>
  C1, as amended. \<open>static_type()\<close> returns a type on every node whose \<open>check_types()\<close>
  succeeds, and on every variable, literal and null literal; on an assignment it is the
  static type of the left side, whatever the right side is. On a method call it validates
  the receiver itself: it raises a type error when the receiver's static type is not an
  object type and when the method name does not resolve, and otherwise returns the return
  type of the resolved method. The arguments of the call are never looked at.
\<close>

theorem static_type_contract:
  "(check_types T e = Inr () \<longrightarrow> (\<exists>t. static_type T e = Inr t))
   \<and> static_type T (JavaVariable n t) = Inr t
   \<and> static_type T (JavaLiteral v t) = Inr t
   \<and> static_type T JavaNullLiteral = Inr (jt_NULL T)
   \<and> static_type T (JavaAssignment lhs rhs) = static_type T lhs
   \<and> (static_type T receiver = Inr rt \<and> \<not> jt_is_object_type T rt \<longrightarrow>
        static_type T (JavaMethodCall receiver m args)
          = Inl (JavaTypeError (''Cannot call method '' @ m @ '' on primitive type '' @ jt_name T rt)))
   \<and> (static_type T receiver = Inr rt \<and> jt_is_object_type T rt
        \<and> jt_method_named T rt m = Inl (NoSuchJavaMethod msg) \<longrightarrow>
        static_type T (JavaMethodCall receiver m args) = Inl (JavaTypeError msg))
   \<and> (static_type T receiver = Inr rt \<and> jt_is_object_type T rt
        \<and> jt_method_named T rt m = Inr meth \<longrightarrow>
        static_type T (JavaMethodCall receiver m args) = Inr (return_type meth))
   \<and> static_type T (JavaMethodCall receiver m args) = static_type T (JavaMethodCall receiver m args')"
proof (intro conjI impI)
  assume "check_types T e = Inr ()"
  then show "\<exists>t. static_type T e = Inr t"
    by (rule check_types_static_type)
qed simp_all

theorem static_type_contract_witness:
  "check_types fixture (JavaMethodCall (JavaVariable ''g'' Graphics) ''add''
       [JavaLiteral ''r'' Rectangle, JavaLiteral ''5'' Prim_int]) = Inr ()
   \<and> static_type fixture (JavaMethodCall (JavaVariable ''g'' Graphics) ''add''
       [JavaLiteral ''r'' Rectangle, JavaLiteral ''5'' Prim_int]) = Inr Graphics
   \<and> static_type fixture (JavaMethodCall (JavaVariable ''g'' Graphics) ''add'' []) = Inr Graphics
   \<and> static_type fixture (JavaLiteral ''5'' Prim_int) = Inr Prim_int
   \<and> \<not> jt_is_object_type fixture Prim_int
   \<and> static_type fixture (JavaMethodCall (JavaLiteral ''5'' Prim_int) ''add'' [])
       = Inl (JavaTypeError ''Cannot call method add on primitive type int'')
   \<and> static_type fixture (JavaVariable ''g'' Graphics) = Inr Graphics
   \<and> jt_is_object_type fixture Graphics
   \<and> jt_method_named fixture Graphics ''nope''
       = Inl (NoSuchJavaMethod ''Graphics has no method named nope'')
   \<and> static_type fixture (JavaMethodCall (JavaVariable ''g'' Graphics) ''nope'' [])
       = Inl (JavaTypeError ''Graphics has no method named nope'')
   \<and> jt_method_named fixture Graphics ''add''
       = Inr \<lparr>parameter_types = [Graphics, Prim_int], return_type = Graphics\<rparr>
   \<and> static_type fixture bad_assignment = Inr Graphics
   \<and> check_types fixture bad_assignment
       = Inl (JavaTypeMismatchError ''Cannot assign int to variable g of type Graphics'')"
proof -
  have ok: "check_types fixture (JavaMethodCall (JavaVariable ''g'' Graphics) ''add''
       [JavaLiteral ''r'' Rectangle, JavaLiteral ''5'' Prim_int]) = Inr ()"
    by (simp add: fixture_def)
  have prim: "static_type fixture (JavaLiteral ''5'' Prim_int) = Inr Prim_int"
    "\<not> jt_is_object_type fixture Prim_int"
    by (simp_all add: fixture_def)
  have obj: "static_type fixture (JavaVariable ''g'' Graphics) = Inr Graphics"
    "jt_is_object_type fixture Graphics"
    by (simp_all add: fixture_def)
  have nope: "jt_method_named fixture Graphics ''nope''
       = Inl (NoSuchJavaMethod ''Graphics has no method named nope'')"
    by (simp add: fixture_def)
  have add: "jt_method_named fixture Graphics ''add''
       = Inr \<lparr>parameter_types = [Graphics, Prim_int], return_type = Graphics\<rparr>"
    by (simp add: fixture_def)
  have bad: "check_types fixture bad_assignment
       = Inl (JavaTypeMismatchError ''Cannot assign int to variable g of type Graphics'')"
    by (simp add: fixture_def bad_assignment_def)
  note a = static_type_contract [where T = fixture
       and e = "JavaMethodCall (JavaVariable ''g'' Graphics) ''add''
                  [JavaLiteral ''r'' Rectangle, JavaLiteral ''5'' Prim_int]"
       and lhs = "JavaVariable ''g'' Graphics" and rhs = "JavaLiteral ''5'' Prim_int"
       and receiver = "JavaLiteral ''5'' Prim_int" and rt = Prim_int and m = "''add''" and args = "[]"]
  note b = static_type_contract [where T = fixture
       and receiver = "JavaVariable ''g'' Graphics" and rt = Graphics and m = "''nope''"
       and args = "[]" and msg = "''Graphics has no method named nope''"]
  note c = static_type_contract [where T = fixture
       and receiver = "JavaVariable ''g'' Graphics" and rt = Graphics and m = "''add''"
       and args = "[]"
       and meth = "\<lparr>parameter_types = [Graphics, Prim_int], return_type = Graphics\<rparr>"]
  from a b c ok prim obj nope add bad show ?thesis
    by (simp add: bad_assignment_def fixture_def)
qed

text \<open>
  As the claim states it, \<open>static_type()\<close> would never raise. It raises on a method call
  whose receiver has a primitive type and on one whose method name does not resolve.
\<close>

theorem static_type_raises_counterexample:
  "static_type fixture (JavaMethodCall (JavaLiteral ''5'' Prim_int) ''add'' [])
     = Inl (JavaTypeError ''Cannot call method add on primitive type int'')
   \<and> check_types fixture (JavaMethodCall (JavaLiteral ''5'' Prim_int) ''add'' [])
     = Inl (NoSuchJavaMethod ''Type int does not have methods'')
   \<and> static_type fixture (JavaMethodCall (JavaVariable ''g'' Graphics) ''nope'' [])
     = Inl (JavaTypeError ''Graphics has no method named nope'')
   \<and> check_types fixture (JavaMethodCall (JavaVariable ''g'' Graphics) ''nope'' [])
     = Inl (NoSuchJavaMethod ''Graphics has no method named nope'')"
  by (simp add: fixture_def)

subsection \<open>Constructor calls\<close>

text \<open>
  C2. The claim wants \<open>static_type()\<close> of a constructor call to be the instantiated type
  and \<open>check_types()\<close> to validate the call. The class overrides neither, so both raise
  \<open>NotImplementedError\<close>, on \<open>new Rectangle()\<close> as on any other constructor call, and
  an expression that contains one cannot be checked.
\<close>

theorem constructor_call_not_implemented:
  "static_type fixture (JavaConstructorCall Rectangle [])
     = Inl (NotImplementedError ''JavaConstructorCall must override static_type()'')
   \<and> check_types fixture (JavaConstructorCall Rectangle [])
     = Inl (NotImplementedError ''JavaConstructorCall must override check_types()'')
   \<and> check_types fixture (JavaConstructorCall Prim_int [JavaLiteral ''5'' Prim_int])
     = Inl (NotImplementedError ''JavaConstructorCall must override check_types()'')
   \<and> check_types fixture
         (JavaAssignment (JavaVariable ''r'' Rectangle) (JavaConstructorCall Rectangle []))
     = Inl (NotImplementedError ''JavaConstructorCall must override check_types()'')"
  by simp

subsection \<open>Method calls\<close>

text \<open>
  C3, as amended. \<open>check_types()\<close> of a method call checks the receiver first and raises
  its error. Then it validates its own constraints on the receiver, whatever the arguments
  are: the receiver's static type must be an object type, the method name must resolve and
  the number of arguments must be the number of parameters. Only then does it go through
  the arguments from the left, checking each one before its static type is compared with
  the parameter type: the error of an ill-typed argument is the error raised when all of
  this has passed and every earlier argument has passed its check and fits its parameter.
\<close>

theorem method_call_check_order:
  "(check_types T receiver = Inl e \<longrightarrow> check_types T (JavaMethodCall receiver m args) = Inl e)
   \<and> (check_types T receiver = Inr () \<and> static_type T receiver = Inr rt
        \<and> \<not> jt_is_object_type T rt \<longrightarrow>
        check_types T (JavaMethodCall receiver m args)
          = Inl (NoSuchJavaMethod (''Type '' @ jt_name T rt @ '' does not have methods'')))
   \<and> (check_types T receiver = Inr () \<and> static_type T receiver = Inr rt
        \<and> jt_is_object_type T rt \<and> jt_method_named T rt m = Inl err \<longrightarrow>
        check_types T (JavaMethodCall receiver m args) = Inl err)
   \<and> (check_types T receiver = Inr () \<and> static_type T receiver = Inr rt
        \<and> jt_is_object_type T rt \<and> jt_method_named T rt m = Inr meth
        \<and> length (parameter_types meth) \<noteq> length args \<longrightarrow>
        check_types T (JavaMethodCall receiver m args)
          = Inl (JavaArgumentCountError
              (''Wrong number of arguments for '' @ jt_name T rt @ ''.'' @ m @ ''(): expected ''
               @ str (length (parameter_types meth)) @ '', got '' @ str (length args))))
   \<and> (check_types T receiver = Inr () \<and> static_type T receiver = Inr rt
        \<and> jt_is_object_type T rt \<and> jt_method_named T rt m = Inr meth
        \<and> length (parameter_types meth) = length args
        \<and> args = pre @ a # post
        \<and> (\<forall>i<length pre. check_types T (pre ! i) = Inr ()
               \<and> (\<exists>t. static_type T (pre ! i) = Inr t
                      \<and> jt_is_subtype_of T t (parameter_types meth ! i)))
        \<and> check_types T a = Inl e \<longrightarrow>
        check_types T (JavaMethodCall receiver m args) = Inl e)"
proof (intro conjI impI)
  assume "check_types T receiver = Inl e"
  then show "check_types T (JavaMethodCall receiver m args) = Inl e"
    by simp
next
  assume "check_types T receiver = Inr () \<and> static_type T receiver = Inr rt
        \<and> \<not> jt_is_object_type T rt"
  then show "check_types T (JavaMethodCall receiver m args)
          = Inl (NoSuchJavaMethod (''Type '' @ jt_name T rt @ '' does not have methods''))"
    by simp
next
  assume "check_types T receiver = Inr () \<and> static_type T receiver = Inr rt
        \<and> jt_is_object_type T rt \<and> jt_method_named T rt m = Inl err"
  then show "check_types T (JavaMethodCall receiver m args) = Inl err"
    by (cases err) simp_all
next
  assume "check_types T receiver = Inr () \<and> static_type T receiver = Inr rt
        \<and> jt_is_object_type T rt \<and> jt_method_named T rt m = Inr meth
        \<and> length (parameter_types meth) \<noteq> length args"
  then show "check_types T (JavaMethodCall receiver m args)
          = Inl (JavaArgumentCountError
              (''Wrong number of arguments for '' @ jt_name T rt @ ''.'' @ m @ ''(): expected ''
               @ str (length (parameter_types meth)) @ '', got '' @ str (length args)))"
    by simp
next
  assume h: "check_types T receiver = Inr () \<and> static_type T receiver = Inr rt
        \<and> jt_is_object_type T rt \<and> jt_method_named T rt m = Inr meth
        \<and> length (parameter_types meth) = length args
        \<and> args = pre @ a # post
        \<and> (\<forall>i<length pre. check_types T (pre ! i) = Inr ()
               \<and> (\<exists>t. static_type T (pre ! i) = Inr t
                      \<and> jt_is_subtype_of T t (parameter_types meth ! i)))
        \<and> check_types T a = Inl e"
  then have "length pre < length (parameter_types meth)"
    by simp
  with h have "check_args T (jt_name T rt) m (parameter_types meth) args (pre @ a # post)
                 (parameter_types meth) = Inl e"
    by (intro check_args_child_error) blast+
  with h show "check_types T (JavaMethodCall receiver m args) = Inl e"
    by simp
qed

theorem method_call_check_order_witness:
  "check_types fixture (JavaMethodCall (JavaLiteral ''5'' Prim_int) ''add'' [])
     = Inl (NoSuchJavaMethod ''Type int does not have methods'')
   \<and> check_types fixture
       (JavaMethodCall (JavaMethodCall (JavaLiteral ''5'' Prim_int) ''add'' []) ''add'' [bad_assignment])
     = Inl (NoSuchJavaMethod ''Type int does not have methods'')
   \<and> check_types fixture (JavaLiteral ''5'' Prim_int) = Inr ()
   \<and> static_type fixture (JavaLiteral ''5'' Prim_int) = Inr Prim_int
   \<and> \<not> jt_is_object_type fixture Prim_int
   \<and> check_types fixture (JavaMethodCall (JavaLiteral ''5'' Prim_int) ''add'' [bad_assignment])
     = Inl (NoSuchJavaMethod (''Type '' @ jt_name fixture Prim_int @ '' does not have methods''))
   \<and> check_types fixture (JavaVariable ''g'' Graphics) = Inr ()
   \<and> static_type fixture (JavaVariable ''g'' Graphics) = Inr Graphics
   \<and> jt_is_object_type fixture Graphics
   \<and> jt_method_named fixture Graphics ''nope''
     = Inl (NoSuchJavaMethod ''Graphics has no method named nope'')
   \<and> check_types fixture (JavaMethodCall (JavaVariable ''g'' Graphics) ''nope'' [bad_assignment])
     = Inl (NoSuchJavaMethod ''Graphics has no method named nope'')
   \<and> jt_method_named fixture Graphics ''add''
     = Inr \<lparr>parameter_types = [Graphics, Prim_int], return_type = Graphics\<rparr>
   \<and> check_types fixture (JavaMethodCall (JavaVariable ''g'' Graphics) ''add'' [bad_assignment])
     = Inl (JavaArgumentCountError
         (''Wrong number of arguments for '' @ jt_name fixture Graphics @ ''.'' @ ''add''
          @ ''(): expected '' @ str 2 @ '', got '' @ str 1))
   \<and> check_types fixture (JavaLiteral ''r'' Rectangle) = Inr ()
   \<and> static_type fixture (JavaLiteral ''r'' Rectangle) = Inr Rectangle
   \<and> jt_is_subtype_of fixture Rectangle Graphics
   \<and> check_types fixture bad_assignment
     = Inl (JavaTypeMismatchError ''Cannot assign int to variable g of type Graphics'')
   \<and> check_types fixture
       (JavaMethodCall (JavaVariable ''g'' Graphics) ''add''
          [JavaLiteral ''r'' Rectangle, bad_assignment])
     = Inl (JavaTypeMismatchError ''Cannot assign int to variable g of type Graphics'')"
proof -
  have recv_bad: "check_types fixture (JavaMethodCall (JavaLiteral ''5'' Prim_int) ''add'' [])
     = Inl (NoSuchJavaMethod ''Type int does not have methods'')"
    by (simp add: fixture_def)
  have prim: "check_types fixture (JavaLiteral ''5'' Prim_int) = Inr ()"
    "static_type fixture (JavaLiteral ''5'' Prim_int) = Inr Prim_int"
    "\<not> jt_is_object_type fixture Prim_int"
    by (simp_all add: fixture_def)
  have obj: "check_types fixture (JavaVariable ''g'' Graphics) = Inr ()"
    "static_type fixture (JavaVariable ''g'' Graphics) = Inr Graphics"
    "jt_is_object_type fixture Graphics"
    by (simp_all add: fixture_def)
  have nope: "jt_method_named fixture Graphics ''nope''
     = Inl (NoSuchJavaMethod ''Graphics has no method named nope'')"
    by (simp add: fixture_def)
  have add: "jt_method_named fixture Graphics ''add''
     = Inr \<lparr>parameter_types = [Graphics, Prim_int], return_type = Graphics\<rparr>"
    by (simp add: fixture_def)
  have rect: "check_types fixture (JavaLiteral ''r'' Rectangle) = Inr ()"
    "static_type fixture (JavaLiteral ''r'' Rectangle) = Inr Rectangle"
    "jt_is_subtype_of fixture Rectangle Graphics"
    by (simp_all add: fixture_def)
  have bad: "check_types fixture bad_assignment
     = Inl (JavaTypeMismatchError ''Cannot assign int to variable g of type Graphics'')"
    by (simp add: fixture_def bad_assignment_def)
  have pre: "\<forall>i<length [JavaLiteral ''r'' Rectangle].
       check_types fixture ([JavaLiteral ''r'' Rectangle] ! i) = Inr ()
       \<and> (\<exists>t. static_type fixture ([JavaLiteral ''r'' Rectangle] ! i) = Inr t
              \<and> jt_is_subtype_of fixture t
                  (parameter_types \<lparr>parameter_types = [Graphics, Prim_int], return_type = Graphics\<rparr> ! i))"
    using rect by simp
  note a = method_call_check_order [where T = fixture
      and receiver = "JavaMethodCall (JavaLiteral ''5'' Prim_int) ''add'' []"
      and e = "NoSuchJavaMethod ''Type int does not have methods''"
      and m = "''add''" and args = "[bad_assignment]", THEN conjunct1, rule_format, OF recv_bad]
  note b = method_call_check_order [where T = fixture
      and receiver = "JavaLiteral ''5'' Prim_int" and rt = Prim_int
      and m = "''add''" and args = "[bad_assignment]",
      THEN conjunct2, THEN conjunct1, rule_format, OF conjI [OF prim(1) conjI [OF prim(2) prim(3)]]]
  note c = method_call_check_order [where T = fixture
      and receiver = "JavaVariable ''g'' Graphics" and rt = Graphics
      and m = "''nope''" and args = "[bad_assignment]"
      and err = "NoSuchJavaMethod ''Graphics has no method named nope''",
      THEN conjunct2, THEN conjunct2, THEN conjunct1, rule_format,
      OF conjI [OF obj(1) conjI [OF obj(2) conjI [OF obj(3) nope]]]]
  have d: "check_types fixture (JavaMethodCall (JavaVariable ''g'' Graphics) ''add'' [bad_assignment])
     = Inl (JavaArgumentCountError
         (''Wrong number of arguments for '' @ jt_name fixture Graphics @ ''.'' @ ''add''
          @ ''(): expected '' @ str 2 @ '', got '' @ str 1))"
    using method_call_check_order [where T = fixture
      and receiver = "JavaVariable ''g'' Graphics" and rt = Graphics
      and m = "''add''" and args = "[bad_assignment]"
      and meth = "\<lparr>parameter_types = [Graphics, Prim_int], return_type = Graphics\<rparr>"]
      obj add
    by (simp add: numeral_2_eq_2)
  have e: "check_types fixture
       (JavaMethodCall (JavaVariable ''g'' Graphics) ''add''
          [JavaLiteral ''r'' Rectangle, bad_assignment])
     = Inl (JavaTypeMismatchError ''Cannot assign int to variable g of type Graphics'')"
    using method_call_check_order [where T = fixture
      and receiver = "JavaVariable ''g'' Graphics" and rt = Graphics
      and m = "''add''" and args = "[JavaLiteral ''r'' Rectangle, bad_assignment]"
      and meth = "\<lparr>parameter_types = [Graphics, Prim_int], return_type = Graphics\<rparr>"
      and pre = "[JavaLiteral ''r'' Rectangle]" and a = bad_assignment and post = "[]"
      and e = "JavaTypeMismatchError ''Cannot assign int to variable g of type Graphics''"]
      obj add pre bad
    by simp
  from a b c d e recv_bad prim obj nope add rect bad show ?thesis
    by blast
qed

text \<open>
  As the claim states it, the error of an ill-typed argument would come before the errors of
  the node itself. With the ill-typed argument \<open>g = 5\<close> the call raises its own
  receiver-object, method-existence and argument-count errors.
\<close>

theorem method_call_check_order_counterexample:
  "check_types fixture bad_assignment
     = Inl (JavaTypeMismatchError ''Cannot assign int to variable g of type Graphics'')
   \<and> check_types fixture (JavaMethodCall (JavaLiteral ''5'' Prim_int) ''add'' [bad_assignment])
     = Inl (NoSuchJavaMethod ''Type int does not have methods'')
   \<and> check_types fixture (JavaMethodCall (JavaVariable ''g'' Graphics) ''nope'' [bad_assignment])
     = Inl (NoSuchJavaMethod ''Graphics has no method named nope'')
   \<and> check_types fixture (JavaMethodCall (JavaVariable ''g'' Graphics) ''add'' [bad_assignment])
     = Inl (JavaArgumentCountError
         ''Wrong number of arguments for Graphics.add(): expected 2, got 1'')"
  by (simp add: fixture_def bad_assignment_def str.simps)

subsection \<open>Assignments\<close>

text \<open>
  C5. When both sides of an assignment pass \<open>check_types()\<close>, both have a static type, and
  the assignment's \<open>check_types()\<close> raises a type-mismatch error if and only if the right
  side's static type is not a subtype of the left side's; otherwise it succeeds. When the
  left side is a variable the message holds the variable's name and both type names, and
  otherwise it is the generic message with the two type names.
\<close>

theorem assignment_check:
  assumes "check_types T lhs = Inr ()" and "check_types T rhs = Inr ()"
  shows "\<exists>lhs_type rhs_type.
           static_type T lhs = Inr lhs_type \<and> static_type T rhs = Inr rhs_type
           \<and> ((\<exists>msg. check_types T (JavaAssignment lhs rhs) = Inl (JavaTypeMismatchError msg))
                \<longleftrightarrow> \<not> jt_is_subtype_of T rhs_type lhs_type)
           \<and> (jt_is_subtype_of T rhs_type lhs_type
                \<longrightarrow> check_types T (JavaAssignment lhs rhs) = Inr ())
           \<and> (\<forall>v t. \<not> jt_is_subtype_of T rhs_type lhs_type \<and> lhs = JavaVariable v t
                \<longrightarrow> check_types T (JavaAssignment lhs rhs)
                    = Inl (JavaTypeMismatchError
                        (''Cannot assign '' @ jt_name T rhs_type @ '' to variable '' @ v
                         @ '' of type '' @ jt_name T lhs_type)))
           \<and> (\<not> jt_is_subtype_of T rhs_type lhs_type \<and> (\<forall>v t. lhs \<noteq> JavaVariable v t)
                \<longrightarrow> check_types T (JavaAssignment lhs rhs)
                    = Inl (JavaTypeMismatchError
                        (''Cannot assign '' @ jt_name T rhs_type @ '' to '' @ jt_name T lhs_type)))"
proof -
  from assms(1) obtain lt where lt: "static_type T lhs = Inr lt"
    using check_types_static_type by blast
  from assms(2) obtain rt where rt: "static_type T rhs = Inr rt"
    using check_types_static_type by blast
  from assms lt rt show ?thesis
    by (cases lhs) auto
qed

theorem assignment_check_witness:
  "check_types fixture (JavaVariable ''g'' Graphics) = Inr ()
   \<and> check_types fixture (JavaLiteral ''5'' Prim_int) = Inr ()
   \<and> check_types fixture (JavaLiteral ''r'' Rectangle) = Inr ()
   \<and> check_types fixture (JavaLiteral ''x'' Graphics) = Inr ()
   \<and> \<not> jt_is_subtype_of fixture Prim_int Graphics
   \<and> jt_is_subtype_of fixture Rectangle Graphics
   \<and> check_types fixture (JavaAssignment (JavaVariable ''g'' Graphics) (JavaLiteral ''5'' Prim_int))
       = Inl (JavaTypeMismatchError ''Cannot assign int to variable g of type Graphics'')
   \<and> check_types fixture (JavaAssignment (JavaVariable ''g'' Graphics) (JavaLiteral ''r'' Rectangle))
       = Inr ()
   \<and> static_type fixture (JavaAssignment (JavaVariable ''g'' Graphics) (JavaLiteral ''r'' Rectangle))
       = Inr Graphics
   \<and> check_types fixture (JavaAssignment (JavaLiteral ''x'' Graphics) (JavaLiteral ''5'' Prim_int))
       = Inl (JavaTypeMismatchError ''Cannot assign int to Graphics'')"
proof -
  have g: "check_types fixture (JavaVariable ''g'' Graphics) = Inr ()"
    and five: "check_types fixture (JavaLiteral ''5'' Prim_int) = Inr ()"
    and r: "check_types fixture (JavaLiteral ''r'' Rectangle) = Inr ()"
    and x: "check_types fixture (JavaLiteral ''x'' Graphics) = Inr ()"
    by simp_all
  have sub: "\<not> jt_is_subtype_of fixture Prim_int Graphics"
    "jt_is_subtype_of fixture Rectangle Graphics"
    by (simp_all add: fixture_def)
  from assignment_check [OF g five] sub
  have bad: "check_types fixture (JavaAssignment (JavaVariable ''g'' Graphics) (JavaLiteral ''5'' Prim_int))
       = Inl (JavaTypeMismatchError ''Cannot assign int to variable g of type Graphics'')"
    by (simp add: fixture_def)
  from assignment_check [OF g r] sub
  have good: "check_types fixture (JavaAssignment (JavaVariable ''g'' Graphics) (JavaLiteral ''r'' Rectangle))
       = Inr ()"
    by simp
  from assignment_check [OF x five] sub
  have generic: "check_types fixture (JavaAssignment (JavaLiteral ''x'' Graphics) (JavaLiteral ''5'' Prim_int))
       = Inl (JavaTypeMismatchError ''Cannot assign int to Graphics'')"
    by (simp add: fixture_def)
  from g five r x sub bad good generic show ?thesis
    by simp
qed

end
